theory Spec2Isabelle
  imports Complex_Main "HOL-Library.Sublist"
begin

section \<open>JavaScript values used by the client code\<close>

text \<open>
  A finite JavaScript number is modelled as a rational and arithmetic on it is exact: the
  rounding of IEEE doubles and the exponent notation of numbers from \<open>1e21\<close> on are
  outside the model. A string is a list of bytes (UTF-8), so the emoji of the user
  interface are the byte sequences below.
\<close>

type_synonym number = rat

definition digit_char :: "nat \<Rightarrow> char" where
  "digit_char d = char_of (48 + d)"

fun nat_to_string :: "nat \<Rightarrow> string" where
  "nat_to_string n =
     (if n < 10 then [digit_char n]
      else nat_to_string (n div 10) @ [digit_char (n mod 10)])"

declare nat_to_string.simps [simp del]



definition Math_ceil :: "number \<Rightarrow> int" where
  "Math_ceil x = \<lceil>x\<rceil>"




text \<open>\<open>s.includes(sub)\<close>; \<open>s.startsWith(p)\<close> is \<^const>\<open>prefix\<close>.\<close>

fun js_includes :: "string \<Rightarrow> string \<Rightarrow> bool" where
  "js_includes sub [] = (sub = [])"
| "js_includes sub (c # cs) = (prefix sub (c # cs) \<or> js_includes sub cs)"

section \<open>Clip time formatting\<close>






text \<open>
  \<open>x || d\<close> on an optional number and on an optional string: \<open>undefined\<close>,
  \<open>null\<close>, \<open>0\<close> and the empty string are falsy.
\<close>

definition js_or_number :: "number option \<Rightarrow> number \<Rightarrow> number" where
  "js_or_number x d = (case x of None \<Rightarrow> d | Some v \<Rightarrow> if v = 0 then d else v)"

definition js_or_string :: "string option \<Rightarrow> string \<Rightarrow> string" where
  "js_or_string x d = (case x of None \<Rightarrow> d | Some v \<Rightarrow> if v = [] then d else v)"

text \<open>
  \<open>`${x}`\<close> for a number: the decimal expansion, which is what JavaScript prints for
  integers and for numbers with a short finite expansion such as 7.5.
\<close>

fun frac_digits :: "nat \<Rightarrow> number \<Rightarrow> string" where
  "frac_digits 0 r = []"
| "frac_digits (Suc n) r =
     (if r = 0 then []
      else digit_char (nat \<lfloor>r * 10\<rfloor>) # frac_digits n (r * 10 - of_int \<lfloor>r * 10\<rfloor>))"

definition number_to_string :: "number \<Rightarrow> string" where
  "number_to_string x =
     (let a = \<bar>x\<bar>; i = \<lfloor>a\<rfloor>; f = a - of_int i
      in (if x < 0 then ''-'' else []) @ nat_to_string (nat i) @
         (if f = 0 then [] else ''.'' @ frac_digits 17 f))"

definition emoji_party :: string where
  "emoji_party = [CHR 0xF0, CHR 0x9F, CHR 0x8E, CHR 0x89]"

definition emoji_cross :: string where
  "emoji_cross = [CHR 0xE2, CHR 0x9D, CHR 0x8C]"

definition emoji_hourglass :: string where
  "emoji_hourglass = [CHR 0xE2, CHR 0x8F, CHR 0xB3]"

section \<open>The processing task as the client sees it\<close>

text \<open>
  The status enumeration of \<open>schema.sql\<close>,
  \<^verbatim>\<open>CREATE TYPE video_status AS ENUM ('pending', 'processing', 'done', 'failed')\<close>,
  which is also the type of \<open>ProcessingTask.status\<close>.
\<close>

datatype video_status = Pending | Processing | Done | Failed

definition video_status_values :: "string list" where
  "video_status_values = [''pending'', ''processing'', ''done'', ''failed'']"

fun video_status_label :: "video_status \<Rightarrow> string" where
  "video_status_label Pending = ''pending''"
| "video_status_label Processing = ''processing''"
| "video_status_label Done = ''done''"
| "video_status_label Failed = ''failed''"


record task_clip =
  tc_id :: string
  tc_title :: string
  tc_start :: number
  tc_end :: number
  tc_duration :: number
  tc_url :: "string option"

record ProcessingTask =
  task_id :: string
  status :: video_status
  progress :: number
  stage :: string
  current_step :: "string option"
  message :: string
  clips :: "task_clip list option"
  error :: "string option"

section \<open>The wait-time display\<close>

definition stageTimeMap :: "(string \<times> number) list" where
  "stageTimeMap =
     [(''queued'', 8), (''init'', 8), (''video_info'', 15 / 2), (''download'', 7),
      (''transcript'', 6), (''analysis'', 5), (''parallel_processing'', 3),
      (''finalizing'', 1), (''azure_upload'', 2), (''processing'', 6), (''pending'', 8)]"

text \<open>\<open>task.stage || task.current_step || 'processing'\<close>\<close>

definition currentStage :: "ProcessingTask \<Rightarrow> string" where
  "currentStage task =
     (if stage task \<noteq> [] then stage task else js_or_string (current_step task) ''processing'')"

text \<open>
  \<open>stageTimeMap[currentStage] || 6\<close>, on the entries the object literal itself
  declares; the members every object inherits (such as \<open>constructor\<close>) are no stage
  names of the workflow and are not modelled.
\<close>

definition estimatedTotalTime :: "ProcessingTask \<Rightarrow> number" where
  "estimatedTotalTime task = js_or_number (map_of stageTimeMap (currentStage task)) 6"

definition displayMinutes :: "ProcessingTask \<Rightarrow> number" where
  "displayMinutes task =
     (let progressPercent = js_or_number (Some (progress task)) 0;
          remainingPercent = max 0 (100 - progressPercent);
          remainingMinutes =
            of_int (Math_ceil (estimatedTotalTime task * remainingPercent / 100))
      in max 1 (min remainingMinutes (estimatedTotalTime task)))"

definition getWaitTimeDisplay :: "ProcessingTask \<Rightarrow> string" where
  "getWaitTimeDisplay task =
     (if status task = Done then ''Ready! '' @ emoji_party
      else if status task = Failed then ''Failed '' @ emoji_cross
      else
        let dm = displayMinutes task in
        if dm = 1 then ''Almost done! 1 min '' @ emoji_hourglass
        else if dm \<le> 2 then ''Wait: '' @ number_to_string dm @ '' min '' @ emoji_hourglass
        else if dm \<le> 3 then ''Wait: '' @ number_to_string dm @ '' min '' @ emoji_hourglass
        else if dm \<ge> 7 then ''Wait: '' @ number_to_string dm @ '' min '' @ emoji_hourglass
        else ''Wait: '' @ number_to_string dm @ '' min '' @ emoji_hourglass)"

text \<open>
  The line under the progress bar:
  \<open>currentTask.status === 'done' ? 'Your clips are ready!' : currentTask.message\<close>.
\<close>

definition progress_message :: "ProcessingTask \<Rightarrow> string" where
  "progress_message task = (if status task = Done then ''Your clips are ready!'' else message task)"

section \<open>Language detection\<close>

datatype Language = en | ru

record browser =
  localStorage :: "string \<rightharpoonup> string"
  navigator_language :: string
  navigator_languages :: "string list option"
  timeZone :: "string option"

text \<open>
  \<open>toLowerCase\<close> on language tags, which are ASCII: the letters \<open>A\<close> to \<open>Z\<close>
  are mapped to \<open>a\<close> to \<open>z\<close>.
\<close>

definition toLowerCase_char :: "char \<Rightarrow> char" where
  "toLowerCase_char c =
     (let n = (of_char c :: nat) in if 65 \<le> n \<and> n \<le> 90 then char_of (n + 32) else c)"

definition toLowerCase :: "string \<Rightarrow> string" where
  "toLowerCase s = map toLowerCase_char s"

text \<open>The test inside the loop over the browser languages.\<close>

definition russian_locale :: "string \<Rightarrow> bool" where
  "russian_locale normalizedLang =
     (prefix ''ru'' normalizedLang \<or>
      js_includes ''ru-'' normalizedLang \<or>
      normalizedLang = ''be'' \<or>
      normalizedLang = ''kk'' \<or>
      normalizedLang = ''ky'' \<or>
      normalizedLang = ''uz'' \<or>
      normalizedLang = ''uk'')"

text \<open>The loop \<open>for (const lang of browserLangs)\<close>: true when it returns \<open>'ru'\<close>.\<close>

fun scan_browser_languages :: "string list \<Rightarrow> bool" where
  "scan_browser_languages [] = False"
| "scan_browser_languages (lang # rest) =
     (if russian_locale (toLowerCase lang) then True else scan_browser_languages rest)"

definition russianTimezones :: "string list" where
  "russianTimezones =
     [''Europe/Moscow'', ''Europe/Kaliningrad'', ''Europe/Samara'', ''Europe/Volgograd'',
      ''Asia/Yekaterinburg'', ''Asia/Omsk'', ''Asia/Krasnoyarsk'', ''Asia/Irkutsk'',
      ''Asia/Yakutsk'', ''Asia/Vladivostok'', ''Asia/Magadan'', ''Asia/Kamchatka'',
      ''Asia/Almaty'', ''Asia/Bishkek'', ''Asia/Tashkent'', ''Asia/Dushanbe'',
      ''Europe/Kiev'', ''Europe/Minsk'']"

text \<open>
  \<open>detectLanguage\<close> returns the language together with the local storage it leaves
  behind; \<open>timeZone = None\<close> stands for the time zone lookup throwing, which the code
  catches.
\<close>

definition detectLanguage :: "browser \<Rightarrow> Language \<times> (string \<rightharpoonup> string)" where
  "detectLanguage b =
     (let savedLang = localStorage b ''cliplink_language'' in
      if savedLang \<noteq> None \<and> savedLang \<noteq> Some [] \<and> savedLang = Some ''en''
      then (en, localStorage b)
      else if savedLang \<noteq> None \<and> savedLang \<noteq> Some [] \<and> savedLang = Some ''ru''
      then (ru, localStorage b)
      else
        let browserLangs =
              (case navigator_languages b of
                 Some ls \<Rightarrow> ls
               | None \<Rightarrow> [navigator_language b])
        in if scan_browser_languages browserLangs then (ru, localStorage b)
           else
             (en,
              case timeZone b of
                None \<Rightarrow> localStorage b
              | Some timezone \<Rightarrow>
                  if timezone \<in> set russianTimezones
                  then (localStorage b)(''cliplink_timezone_suggests_ru'' \<mapsto> ''true'')
                  else localStorage b))"

text \<open>
  The family of languages as the specification words it: the prefix \<open>ru\<close>, or exactly
  one of \<open>be\<close>, \<open>kk\<close>, \<open>ky\<close>, \<open>uz\<close>, \<open>uk\<close>.
\<close>

definition russian_family_spec :: "string \<Rightarrow> bool" where
  "russian_family_spec lang =
     (prefix ''ru'' lang \<or> lang \<in> {''be'', ''kk'', ''ky'', ''uz'', ''uk''})"

section \<open>Starting a processing request\<close>

datatype json = JString string | JNumber number | JBool bool

definition is_space :: "char \<Rightarrow> bool" where
  "is_space c = (c \<in> {CHR '' '', CHR 0x09, CHR 0x0A, CHR 0x0B, CHR 0x0C, CHR 0x0D})"

text \<open>\<open>s.trim()\<close> on ASCII white space.\<close>

definition trim :: "string \<Rightarrow> string" where
  "trim s = rev (dropWhile is_space (rev (dropWhile is_space s)))"

text \<open>
  The body that \<open>startVideoProcessing\<close> posts to
  \<open>/api/workflow/process-comprehensive-async\<close>, as the list of its properties in
  order.
\<close>

definition request_body :: "string \<Rightarrow> (string \<times> json) list" where
  "request_body youtubeUrl =
     [(''youtube_url'', JString (trim youtubeUrl)),
      (''quality'', JString ''best''),
      (''create_vertical'', JBool True),
      (''smoothing_strength'', JString ''very_high''),
      (''burn_subtitles'', JBool True),
      (''font_size'', JNumber 15),
      (''export_codec'', JString ''h264'')]"

text \<open>
  \<open>startVideoProcessing\<close> up to the request: an error message when the URL is blank
  or a task is active, the request body otherwise.
\<close>

definition startVideoProcessing :: "string \<Rightarrow> bool \<Rightarrow> string + (string \<times> json) list" where
  "startVideoProcessing youtubeUrl hasActive =
     (if trim youtubeUrl = [] then Inl ''Please enter a YouTube URL''
      else if hasActive
      then Inl ''You already have a video being processed. Please wait for it to complete.''
      else Inr (request_body youtubeUrl))"

text \<open>
  The option names and the value sets of the configuration object as the specification
  lists them.
\<close>

definition recognized_options :: "string list" where
  "recognized_options =
     [''quality'', ''create_vertical'', ''smoothing_strength'', ''burn_subtitles'',
      ''font_size'', ''export_codec'', ''subtitle_style'']"

definition smoothing_strengths :: "string list" where
  "smoothing_strengths = [''low'', ''medium'', ''high'', ''very_high'']"

section \<open>Polling the task status\<close>

text \<open>
  The state that \<open>pollTaskProgress\<close> reads and writes: the React state of the
  component, the two local-storage entries of the active task (the JSON text of the task
  is represented by the task), the retry counter of the closure, whether the interval is
  still set, and whether the reload of the user's clips has been scheduled.
\<close>

record processor_state =
  currentTask :: "ProcessingTask option"
  isProcessing :: bool
  hasActiveTask :: bool
  ui_error :: "string option"
  active_task_id :: "string option"
  active_task_data :: "ProcessingTask option"
  retryCount :: nat
  pollInterval :: bool
  fetchUserVideos_scheduled :: bool

text \<open>
  One run of the interval callback either gets the task from the status endpoint or
  throws (the request fails, the response is not ok, the body does not parse); the string
  is the message the \<open>catch\<close> block prints.
\<close>

datatype poll_outcome = Response ProcessingTask | Thrown string

definition maxRetries :: nat where
  "maxRetries = 5"

definition pollTick :: "string \<Rightarrow> poll_outcome \<Rightarrow> processor_state \<Rightarrow> processor_state" where
  "pollTick api_base_url outcome s =
     (case outcome of
        Response taskData \<Rightarrow>
          (let s1 = s\<lparr>retryCount := 0, currentTask := Some taskData,
                       active_task_data := Some taskData\<rparr>
           in if status taskData = Done
              then s1\<lparr>pollInterval := False, isProcessing := False, hasActiveTask := False,
                      active_task_id := None, active_task_data := None,
                      fetchUserVideos_scheduled := True\<rparr>
              else if status taskData = Failed
              then s1\<lparr>pollInterval := False, isProcessing := False, hasActiveTask := False,
                      ui_error := Some (js_or_string (error taskData) ''Processing failed''),
                      active_task_id := None, active_task_data := None\<rparr>
              else s1)
      | Thrown errorMessage \<Rightarrow>
          (let s1 = s\<lparr>retryCount := retryCount s + 1\<rparr>
           in if retryCount s1 \<ge> maxRetries
              then s1\<lparr>pollInterval := False, isProcessing := False, hasActiveTask := False,
                      ui_error := Some (''Failed to check processing status: '' @ errorMessage @
                        ''. Please check if the backend is running at '' @ api_base_url),
                      active_task_id := None, active_task_data := None\<rparr>
              else s1))"




section \<open>Clip records\<close>











section \<open>Example inputs\<close>


definition kurukh_browser :: browser where
  "kurukh_browser =
     \<lparr>localStorage = Map.empty, navigator_language = ''kru-IN'',
      navigator_languages = Some [''kru-IN'', ''en''], timeZone = Some ''Asia/Kolkata''\<rparr>"

definition moscow_browser :: browser where
  "moscow_browser =
     \<lparr>localStorage = Map.empty, navigator_language = ''ru-RU'',
      navigator_languages = Some [''en-US'', ''ru-RU''], timeZone = Some ''Europe/Moscow''\<rparr>"

definition started_state :: processor_state where
  "started_state =
     \<lparr>currentTask = None, isProcessing = True, hasActiveTask = True, ui_error = None,
      active_task_id = Some ''comprehensive_ab12cd34'', active_task_data = None,
      retryCount = 0, pollInterval = False, fetchUserVideos_scheduled = False\<rparr>"


definition mixed_task :: ProcessingTask where
  "mixed_task =
     \<lparr>task_id = ''comprehensive_ab12cd34'', status = Done, progress = 100,
      stage = ''finalizing'', current_step = None, message = ''Processing finished'',
      clips = Some [\<lparr>tc_id = ''clip-0'', tc_title = ''The hook'', tc_start = 10, tc_end = 40,
                     tc_duration = 30, tc_url = Some ''clips/subtitled_segment1_vertical.mp4''\<rparr>],
      error = Some ''Segment 2 failed: reframing timed out''\<rparr>"

section \<open>Properties of the clip time formatters\<close>











section \<open>Properties of the wait-time display\<close>









section \<open>Properties of the language detection\<close>

lemma scan_browser_languages_iff:
  "scan_browser_languages langs \<longleftrightarrow> (\<exists>lang \<in> set langs. russian_locale (toLowerCase lang))"
  by (induction langs) auto

lemma detectLanguage_saved_en:
  "localStorage b ''cliplink_language'' = Some ''en'' \<Longrightarrow> detectLanguage b = (en, localStorage b)"
  by (simp add: detectLanguage_def)

lemma detectLanguage_saved_ru:
  "localStorage b ''cliplink_language'' = Some ''ru'' \<Longrightarrow> detectLanguage b = (ru, localStorage b)"
  by (simp add: detectLanguage_def)

lemma detectLanguage_unsaved:
  assumes "localStorage b ''cliplink_language'' \<noteq> Some ''en''"
    and "localStorage b ''cliplink_language'' \<noteq> Some ''ru''"
  shows "fst (detectLanguage b) =
     (if scan_browser_languages
           (case navigator_languages b of Some ls \<Rightarrow> ls | None \<Rightarrow> [navigator_language b])
      then ru else en)"
  using assms by (simp add: detectLanguage_def Let_def)

text \<open>
  What the function computes. A saved language \<open>en\<close> or \<open>ru\<close> is returned whatever
  the browser languages and the time zone are. Without one, the result is \<open>ru\<close> exactly
  when some browser language, in lower case, starts with \<open>ru\<close>, contains \<open>ru-\<close>, or
  is one of \<open>be\<close>, \<open>kk\<close>, \<open>ky\<close>, \<open>uz\<close>, \<open>uk\<close>; otherwise it is \<open>en\<close>.
\<close>

lemma detectLanguage_characterisation:
  "(localStorage b ''cliplink_language'' = Some ''en'' \<longrightarrow> fst (detectLanguage b) = en) \<and>
   (localStorage b ''cliplink_language'' = Some ''ru'' \<longrightarrow> fst (detectLanguage b) = ru) \<and>
   (localStorage b ''cliplink_language'' \<noteq> Some ''en'' \<and>
    localStorage b ''cliplink_language'' \<noteq> Some ''ru'' \<longrightarrow>
      (fst (detectLanguage b) = ru \<longleftrightarrow>
         (\<exists>lang \<in> set (case navigator_languages b of
                           Some ls \<Rightarrow> ls | None \<Rightarrow> [navigator_language b]).
            prefix ''ru'' (toLowerCase lang) \<or>
            js_includes ''ru-'' (toLowerCase lang) \<or>
            toLowerCase lang \<in> {''be'', ''kk'', ''ky'', ''uz'', ''uk''})) \<and>
      (fst (detectLanguage b) \<noteq> ru \<longrightarrow> fst (detectLanguage b) = en))"
proof (intro conjI impI)
  assume "localStorage b ''cliplink_language'' = Some ''en''"
  then show "fst (detectLanguage b) = en" by (simp add: detectLanguage_saved_en)
next
  assume "localStorage b ''cliplink_language'' = Some ''ru''"
  then show "fst (detectLanguage b) = ru" by (simp add: detectLanguage_saved_ru)
next
  assume a: "localStorage b ''cliplink_language'' \<noteq> Some ''en'' \<and>
    localStorage b ''cliplink_language'' \<noteq> Some ''ru''"
  then show "fst (detectLanguage b) = ru \<longleftrightarrow>
         (\<exists>lang \<in> set (case navigator_languages b of
                           Some ls \<Rightarrow> ls | None \<Rightarrow> [navigator_language b]).
            prefix ''ru'' (toLowerCase lang) \<or>
            js_includes ''ru-'' (toLowerCase lang) \<or>
            toLowerCase lang \<in> {''be'', ''kk'', ''ky'', ''uz'', ''uk''})"
    by (simp add: detectLanguage_unsaved scan_browser_languages_iff russian_locale_def)
next
  assume "fst (detectLanguage b) \<noteq> ru"
  then show "fst (detectLanguage b) = en" by (cases "fst (detectLanguage b)") simp_all
qed



text \<open>
  Claim C10. With a saved language the function returns it, as the claim says: the
  browser below gets \<open>en\<close> once \<open>en\<close> is saved. Without a saved language the claim
  and the language guide of the repository name the family \<open>ru-*\<close>, \<open>be\<close>, \<open>kk\<close>,
  \<open>ky\<close>, \<open>uz\<close>, \<open>uk\<close>. The language tag \<open>kru-IN\<close> (Kurukh) is outside that family,
  in either case of its letters, and the function still returns \<open>ru\<close> for a browser
  whose languages are \<open>kru-IN\<close> and \<open>en\<close>, because the tag contains \<open>ru-\<close>.
\<close>

theorem detectLanguage_kurukh_tag:
  "localStorage kurukh_browser ''cliplink_language'' = None \<and>
   navigator_languages kurukh_browser = Some [''kru-IN'', ''en''] \<and>
   \<not> russian_family_spec ''kru-IN'' \<and> \<not> russian_family_spec ''en'' \<and>
   \<not> russian_family_spec (toLowerCase ''kru-IN'') \<and>
   fst (detectLanguage kurukh_browser) = ru \<and>
   fst (detectLanguage (kurukh_browser\<lparr>localStorage := [''cliplink_language'' \<mapsto> ''en'']\<rparr>)) = en \<and>
   fst (detectLanguage moscow_browser) = ru \<and>
   fst (detectLanguage (moscow_browser\<lparr>navigator_languages := Some [''en-US'']\<rparr>)) = en"
  by (simp add: detectLanguage_def kurukh_browser_def moscow_browser_def toLowerCase_def
      toLowerCase_char_def russian_locale_def russian_family_spec_def)

section \<open>Properties of the processing request\<close>

text \<open>
  Claim C3, as amended. Every request that \<open>startVideoProcessing\<close> issues carries the
  trimmed URL and exactly six of the recognized options, in this order:
  \<open>quality = 'best'\<close>, \<open>create_vertical = true\<close>,
  \<open>smoothing_strength = 'very_high'\<close> (one of low, medium, high, very_high),
  \<open>burn_subtitles = true\<close>, \<open>font_size = 15\<close> and \<open>export_codec = 'h264'\<close>. It
  carries no \<open>subtitle_style\<close>.
\<close>

theorem request_body_options:
  assumes "startVideoProcessing youtubeUrl hasActive = Inr body"
  shows "map fst body =
           ''youtube_url'' # filter (\<lambda>k. k \<noteq> ''subtitle_style'') recognized_options \<and>
         map_of body ''youtube_url'' = Some (JString (trim youtubeUrl)) \<and>
         trim youtubeUrl \<noteq> [] \<and>
         map_of body ''quality'' = Some (JString ''best'') \<and>
         map_of body ''create_vertical'' = Some (JBool True) \<and>
         map_of body ''smoothing_strength'' = Some (JString ''very_high'') \<and>
         ''very_high'' \<in> set smoothing_strengths \<and>
         map_of body ''burn_subtitles'' = Some (JBool True) \<and>
         map_of body ''font_size'' = Some (JNumber 15) \<and>
         map_of body ''export_codec'' = Some (JString ''h264'') \<and>
         map_of body ''subtitle_style'' = None"
proof -
  from assms have b: "body = request_body youtubeUrl" and t: "trim youtubeUrl \<noteq> []"
    by (auto simp: startVideoProcessing_def split: if_splits)
  show ?thesis
    unfolding b using t
    by (simp add: request_body_def recognized_options_def smoothing_strengths_def)
qed

theorem request_body_options_witness:
  "startVideoProcessing ''https://youtu.be/dQw4w9WgXcQ '' False =
     Inr (request_body ''https://youtu.be/dQw4w9WgXcQ '') \<and>
   map fst (request_body ''https://youtu.be/dQw4w9WgXcQ '') =
     [''youtube_url'', ''quality'', ''create_vertical'', ''smoothing_strength'',
      ''burn_subtitles'', ''font_size'', ''export_codec''] \<and>
   map_of (request_body ''https://youtu.be/dQw4w9WgXcQ '') ''youtube_url'' =
     Some (JString ''https://youtu.be/dQw4w9WgXcQ'')"
proof -
  have t: "trim ''https://youtu.be/dQw4w9WgXcQ '' = ''https://youtu.be/dQw4w9WgXcQ''"
    by (simp add: trim_def is_space_def)
  have h: "startVideoProcessing ''https://youtu.be/dQw4w9WgXcQ '' False =
     Inr (request_body ''https://youtu.be/dQw4w9WgXcQ '')"
    by (simp add: startVideoProcessing_def t)
  from request_body_options [OF h] h t show ?thesis
    by (simp add: recognized_options_def)
qed

text \<open>
  The claim as stated fails on every request: \<open>subtitle_style\<close> is a recognized option
  and the request does not carry it, while it does carry \<open>youtube_url\<close>.
\<close>

theorem request_body_counterexample:
  "startVideoProcessing ''https://youtu.be/dQw4w9WgXcQ'' False =
     Inr (request_body ''https://youtu.be/dQw4w9WgXcQ'') \<and>
   ''subtitle_style'' \<in> set recognized_options \<and>
   ''subtitle_style'' \<notin> fst ` set (request_body ''https://youtu.be/dQw4w9WgXcQ'') \<and>
   fst ` set (request_body ''https://youtu.be/dQw4w9WgXcQ'') \<noteq> set recognized_options"
proof -
  have k: "fst ` set (request_body ''https://youtu.be/dQw4w9WgXcQ'') =
     {''youtube_url'', ''quality'', ''create_vertical'', ''smoothing_strength'',
      ''burn_subtitles'', ''font_size'', ''export_codec''}"
    by (simp add: request_body_def)
  have n: "''subtitle_style'' \<notin> fst ` set (request_body ''https://youtu.be/dQw4w9WgXcQ'')"
    unfolding k by simp
  have r: "''subtitle_style'' \<in> set recognized_options"
    by (simp add: recognized_options_def)
  have s: "startVideoProcessing ''https://youtu.be/dQw4w9WgXcQ'' False =
     Inr (request_body ''https://youtu.be/dQw4w9WgXcQ'')"
    by (simp add: startVideoProcessing_def trim_def is_space_def)
  from n r have "fst ` set (request_body ''https://youtu.be/dQw4w9WgXcQ'') \<noteq> set recognized_options"
    by blast
  with n r s show ?thesis by blast
qed

section \<open>Properties of the clip records\<close>












section \<open>Properties of the polling loop\<close>















section \<open>Properties of the task report\<close>

lemma pollTick_Response_finished:
  "status taskData = Done \<or> status taskData = Failed \<Longrightarrow>
     currentTask (pollTick u (Response taskData) s) = Some taskData \<and>
     \<not> pollInterval (pollTick u (Response taskData) s) \<and>
     \<not> isProcessing (pollTick u (Response taskData) s) \<and>
     \<not> hasActiveTask (pollTick u (Response taskData) s) \<and>
     active_task_id (pollTick u (Response taskData) s) = None \<and>
     active_task_data (pollTick u (Response taskData) s) = None"
  by (auto simp: pollTick_def Let_def)

lemma pollTick_Response_done:
  "status taskData = Done \<Longrightarrow>
     ui_error (pollTick u (Response taskData) s) = ui_error s \<and>
     fetchUserVideos_scheduled (pollTick u (Response taskData) s)"
  by (simp add: pollTick_def Let_def)

lemma pollTick_Response_failed:
  "status taskData = Failed \<Longrightarrow>
     ui_error (pollTick u (Response taskData) s) =
       Some (js_or_string (error taskData) ''Processing failed'') \<and>
     fetchUserVideos_scheduled (pollTick u (Response taskData) s) = fetchUserVideos_scheduled s"
  by (simp add: pollTick_def Let_def)

lemma video_status_label_values: "video_status_label st \<in> set video_status_values"
  by (cases st) (simp_all add: video_status_values_def)

text \<open>
  Claim C1, as amended. A finished task has the status \<open>done\<close> or \<open>failed\<close>; there
  is no status "partially completed". The client keeps the polled result with its clips,
  stops polling, and reports a done task as "Ready!" and "Your clips are ready!", sets no
  error and schedules the reload of the clips; it reports a failed task as "Failed" and
  shows the error detail of the task, or "Processing failed" when the task has none.
\<close>

theorem finished_task_report:
  "video_status_label (status taskData) \<in> set video_status_values \<and>
   video_status_label (status taskData) \<noteq> ''partially completed'' \<and>
   (status taskData = Done \<longrightarrow>
      (let s' = pollTick u (Response taskData) s
       in currentTask s' = Some taskData \<and> \<not> pollInterval s' \<and> \<not> isProcessing s' \<and>
          \<not> hasActiveTask s' \<and> ui_error s' = ui_error s \<and> fetchUserVideos_scheduled s' \<and>
          getWaitTimeDisplay taskData = ''Ready! '' @ emoji_party \<and>
          progress_message taskData = ''Your clips are ready!'')) \<and>
   (status taskData = Failed \<longrightarrow>
      (let s' = pollTick u (Response taskData) s
       in currentTask s' = Some taskData \<and> \<not> pollInterval s' \<and> \<not> isProcessing s' \<and>
          \<not> hasActiveTask s' \<and>
          ui_error s' = Some (js_or_string (error taskData) ''Processing failed'') \<and>
          getWaitTimeDisplay taskData = ''Failed '' @ emoji_cross \<and>
          progress_message taskData = message taskData))"
proof (intro conjI impI)
  show "video_status_label (status taskData) \<in> set video_status_values"
    by (rule video_status_label_values)
next
  show "video_status_label (status taskData) \<noteq> ''partially completed''"
    by (cases "status taskData") simp_all
next
  assume d: "status taskData = Done"
  then show "let s' = pollTick u (Response taskData) s
       in currentTask s' = Some taskData \<and> \<not> pollInterval s' \<and> \<not> isProcessing s' \<and>
          \<not> hasActiveTask s' \<and> ui_error s' = ui_error s \<and> fetchUserVideos_scheduled s' \<and>
          getWaitTimeDisplay taskData = ''Ready! '' @ emoji_party \<and>
          progress_message taskData = ''Your clips are ready!''"
    using pollTick_Response_finished [of taskData u s] pollTick_Response_done [of taskData u s]
    by (simp add: Let_def getWaitTimeDisplay_def progress_message_def)
next
  assume f: "status taskData = Failed"
  then show "let s' = pollTick u (Response taskData) s
       in currentTask s' = Some taskData \<and> \<not> pollInterval s' \<and> \<not> isProcessing s' \<and>
          \<not> hasActiveTask s' \<and>
          ui_error s' = Some (js_or_string (error taskData) ''Processing failed'') \<and>
          getWaitTimeDisplay taskData = ''Failed '' @ emoji_cross \<and>
          progress_message taskData = message taskData"
    using pollTick_Response_finished [of taskData u s] pollTick_Response_failed [of taskData u s]
    by (simp add: Let_def getWaitTimeDisplay_def progress_message_def)
qed

theorem finished_task_report_witness:
  "status mixed_task = Done \<and>
   currentTask (pollTick ''http://localhost:8000'' (Response mixed_task)
     (started_state\<lparr>pollInterval := True\<rparr>)) = Some mixed_task \<and>
   ui_error (pollTick ''http://localhost:8000'' (Response mixed_task)
     (started_state\<lparr>pollInterval := True\<rparr>)) = None \<and>
   status (mixed_task\<lparr>status := Failed\<rparr>) = Failed \<and>
   ui_error (pollTick ''http://localhost:8000'' (Response (mixed_task\<lparr>status := Failed\<rparr>))
     (started_state\<lparr>pollInterval := True\<rparr>)) = Some ''Segment 2 failed: reframing timed out''"
  using finished_task_report [of mixed_task "''http://localhost:8000''"
      "started_state\<lparr>pollInterval := True\<rparr>"]
    finished_task_report [of "mixed_task\<lparr>status := Failed\<rparr>" "''http://localhost:8000''"
      "started_state\<lparr>pollInterval := True\<rparr>"]
  by (simp add: mixed_task_def started_state_def js_or_string_def Let_def)

text \<open>
  The claim as stated fails for a finished task that carries both a clip and the error
  detail of a failed segment: under either terminal status its report is "done" or
  "failed", with the displays "Ready!" and "Failed", and not "partially completed".
\<close>

theorem partial_report_counterexample:
  "clips mixed_task \<noteq> None \<and> clips mixed_task \<noteq> Some [] \<and> error mixed_task \<noteq> None \<and>
   video_status_label (status mixed_task) = ''done'' \<and>
   getWaitTimeDisplay mixed_task = ''Ready! '' @ emoji_party \<and>
   video_status_label (status (mixed_task\<lparr>status := Failed\<rparr>)) = ''failed'' \<and>
   getWaitTimeDisplay (mixed_task\<lparr>status := Failed\<rparr>) = ''Failed '' @ emoji_cross \<and>
   ''partially completed'' \<notin> set video_status_values"
  by (simp add: mixed_task_def getWaitTimeDisplay_def video_status_values_def)










end
